theory Spec2Isabelle
  imports Main
begin

section \<open>Python strings\<close>

text \<open>
  A Python \<open>str\<close> is a sequence of Unicode code points, and \<open>len\<close>, indexing and slicing
  count code points. A string is therefore a list of code points (natural numbers);
  \<open>ustr\<close> embeds an ASCII literal. The placeholder of the splitter is the single code
  point U+2026 (horizontal ellipsis), 8230 in decimal.
\<close>

type_synonym pystr = "nat list"

definition ustr :: "string \<Rightarrow> pystr" where
  "ustr cs = map of_char cs"

definition ellipsis :: pystr where
  "ellipsis = [8230]"

definition py_len :: "pystr \<Rightarrow> int" where
  "py_len s = int (length s)"

text \<open>
  Slicing with one bound, \<open>s[i:]\<close> and \<open>s[:i]\<close>: a negative bound counts from the end,
  and a bound outside the string is clamped (slices never raise).
\<close>

definition slice_index :: "pystr \<Rightarrow> int \<Rightarrow> nat" where
  "slice_index s i =
     (if i < 0 then nat (max (py_len s + i) 0) else nat (min i (py_len s)))"

definition slice_from :: "pystr \<Rightarrow> int \<Rightarrow> pystr" where
  "slice_from s i = drop (slice_index s i) s"

definition slice_to :: "pystr \<Rightarrow> int \<Rightarrow> pystr" where
  "slice_to s i = take (slice_index s i) s"

definition startswith :: "pystr \<Rightarrow> pystr \<Rightarrow> bool" where
  "startswith s p = (take (length p) s = p)"

definition endswith :: "pystr \<Rightarrow> pystr \<Rightarrow> bool" where
  "endswith s x = (length x \<le> length s \<and> drop (length s - length x) s = x)"

text \<open>
  \<open>str.strip()\<close> without argument removes the characters for which \<open>str.isspace\<close> holds:
  U+0009..U+000D, U+001C..U+0020, U+0085, U+00A0, U+1680, U+2000..U+200A, U+2028,
  U+2029, U+202F, U+205F and U+3000.
\<close>

definition isspace :: "nat \<Rightarrow> bool" where
  "isspace c =
     ((9 \<le> c \<and> c \<le> 13) \<or> (28 \<le> c \<and> c \<le> 32) \<or> c = 133 \<or> c = 160 \<or> c = 5760
      \<or> (8192 \<le> c \<and> c \<le> 8202) \<or> c = 8232 \<or> c = 8233 \<or> c = 8239 \<or> c = 8287
      \<or> c = 12288)"

definition lstrip :: "pystr \<Rightarrow> pystr" where
  "lstrip s = dropWhile isspace s"

definition rstrip :: "pystr \<Rightarrow> pystr" where
  "rstrip s = rev (dropWhile isspace (rev s))"

definition strip :: "pystr \<Rightarrow> pystr" where
  "strip s = rstrip (lstrip s)"

definition lstrip_chars :: "pystr \<Rightarrow> pystr \<Rightarrow> pystr" where
  "lstrip_chars s chars = dropWhile (\<lambda>c. c \<in> set chars) s"


section \<open>Exceptions, instants and the external parser\<close>

datatype exn =
    BadArgument string
  | BadDatetimeTransform string
  | RuntimeError string
  | ConversionError string
  | ValueError
  | OverflowError
  | IndexError
  | TypeError
  | InteractionResponded
  | OtherError string

text \<open>
  An aware \<open>datetime\<close> is an instant: microseconds since the Unix epoch. The type holds
  the years 1 to 9999, and \<open>datetime + timedelta\<close> raises \<open>OverflowError\<close> outside.
\<close>

type_synonym datetime = int

definition datetime_min :: datetime where
  "datetime_min = - 62135596800 * 1000000"

definition datetime_max :: datetime where
  "datetime_max = 253402300800 * 1000000 - 1"

definition add_seconds :: "datetime \<Rightarrow> int \<Rightarrow> exn + datetime" where
  "add_seconds d secs =
     (let r = d + secs * 1000000
      in if datetime_min \<le> r \<and> r \<le> datetime_max then Inr r else Inl OverflowError)"

text \<open>The fields of a Duckling candidate that the converters read.\<close>

record DucklingResponse =
  body :: pystr
  dim :: pystr
  span_end :: int
  span_start :: int
  latent :: bool
  value_value :: "pystr option"
  value_normalized_value :: int

record duckling_key =
  host :: pystr
  port :: int

record url =
  scheme :: pystr
  url_host :: pystr
  url_port :: int
  path :: pystr

record form =
  form_locale :: pystr
  form_text :: pystr
  form_dims :: pystr
  form_tz :: pystr

text \<open>
  What the converters reach through \<open>ctx.bot\<close> (or \<open>interaction.client\<close>) and the standard
  library: the stored time zone of a user, the configuration entry of the parser, the
  HTTP session with the JSON body it answers, \<open>datetime.fromisoformat\<close> (\<open>None\<close> where it
  raises \<open>ValueError\<close>) and the clock, whose k-th reading is \<open>utcnow k\<close>.
\<close>

record bot =
  tz_store :: "nat \<Rightarrow> pystr option"
  duckling :: "duckling_key option"
  session_post :: "url \<Rightarrow> form \<Rightarrow> DucklingResponse list"
  fromisoformat :: "pystr \<Rightarrow> datetime option"
  utcnow :: "nat \<Rightarrow> datetime"

record Context =
  ctx_bot :: bot
  author_id :: nat
  message_created_at :: datetime

record Interaction =
  client :: bot
  user_id :: nat
  guild :: "nat option"
  created_at :: datetime


section \<open>The datetime converters\<close>

text \<open>
  A time zone is represented by its key, which is what \<open>str(timezone)\<close> sends to the
  parser; the rows of \<open>tz_store\<close> are taken to be valid keys. A missing or empty row means
  UTC.
\<close>

definition get_timezone :: "bot \<Rightarrow> nat \<Rightarrow> pystr" where
  "get_timezone b uid =
     (case tz_store b uid of
        None \<Rightarrow> ustr ''UTC''
      | Some row \<Rightarrow> if row \<noteq> [] then row else ustr ''UTC'')"

definition DatetimeConverter_get_timezone :: "Context \<Rightarrow> pystr" where
  "DatetimeConverter_get_timezone ctx = get_timezone (ctx_bot ctx) (author_id ctx)"

definition WhenAndWhatTransformer_get_timezone :: "Interaction \<Rightarrow> pystr" where
  "WhenAndWhatTransformer_get_timezone i =
     (if guild i = None then ustr ''UTC'' else get_timezone (client i) (user_id i))"

text \<open>
  The loop of \<open>parse\<close> over the candidates; \<open>k\<close> counts the clock readings taken so far.
  A duration is added to a fresh reading of the clock.
\<close>

fun parse_loop ::
  "bot \<Rightarrow> nat \<Rightarrow> DucklingResponse list \<Rightarrow> exn + (datetime \<times> int \<times> int) list" where
  "parse_loop b k [] = Inr []"
| "parse_loop b k (t # ts) =
     (if dim t = ustr ''time'' \<and> value_value t \<noteq> None then
        (case fromisoformat b (the (value_value t)) of
           None \<Rightarrow> Inl ValueError
         | Some d \<Rightarrow>
             (case parse_loop b k ts of
                Inl e \<Rightarrow> Inl e
              | Inr parsed \<Rightarrow> Inr ((d, span_start t, span_end t) # parsed)))
      else if dim t = ustr ''duration'' then
        (case add_seconds (utcnow b k) (value_normalized_value t) of
           Inl e \<Rightarrow> Inl e
         | Inr d \<Rightarrow>
             (case parse_loop b (Suc k) ts of
                Inl e \<Rightarrow> Inl e
              | Inr parsed \<Rightarrow> Inr ((d, span_start t, span_end t) # parsed)))
      else parse_loop b k ts)"

text \<open>
  \<open>parse(argument, timezone=, now=, duckling_url=)\<close>, the same code in all three classes.
  \<open>now = now or datetime.now(utc)\<close> reads the clock when no \<open>now\<close> is given; the value is
  not used afterwards.
\<close>

definition parse ::
  "bot \<Rightarrow> pystr \<Rightarrow> pystr \<Rightarrow> datetime option \<Rightarrow> url
     \<Rightarrow> exn + (datetime \<times> int \<times> int) list" where
  "parse b argument timezone now duckling_url =
     (let k = (case now of None \<Rightarrow> Suc 0 | Some _ \<Rightarrow> 0);
          data = session_post b duckling_url
                   \<lparr>form_locale = ustr ''en_US'', form_text = argument,
                    form_dims = ustr ''[\"time\", \"duration\"]'', form_tz = timezone\<rparr>
      in parse_loop b k data)"

definition build_url :: "duckling_key \<Rightarrow> url" where
  "build_url key =
     \<lparr>scheme = ustr ''http'', url_host = host key, url_port = port key,
      path = ustr ''/parse''\<rparr>"

text \<open>The block under "Strip some common stuff", the same in both when-and-what classes.\<close>

fun strip_prefixes :: "pystr list \<Rightarrow> pystr \<Rightarrow> pystr" where
  "strip_prefixes [] argument = argument"
| "strip_prefixes (prefix # rest) argument =
     (if startswith argument prefix then slice_from argument (py_len prefix)
      else strip_prefixes rest argument)"

definition strip_suffix :: "pystr \<Rightarrow> pystr \<Rightarrow> pystr" where
  "strip_suffix suffix argument =
     (if endswith argument suffix then slice_to argument (- py_len suffix) else argument)"

definition strip_common :: "pystr \<Rightarrow> pystr" where
  "strip_common argument =
     strip (strip_suffix (ustr ''from now'')
       (strip_prefixes [ustr ''me to '', ustr ''me in '', ustr ''me at '', ustr ''me that '']
          argument))"

text \<open>The residual label: the slice chosen by the span, then the "to " prefix.\<close>

definition residual :: "pystr \<Rightarrow> int \<Rightarrow> int \<Rightarrow> pystr" where
  "residual argument begin end' =
     (let what = (if begin = 0 then lstrip_chars (slice_from argument (end' + 1)) (ustr '' ,.!:;'')
                  else strip (slice_to argument begin))
      in if startswith what (ustr ''to '') then slice_from what (py_len (ustr ''to '')) else what)"

definition DatetimeConverter_convert :: "Context \<Rightarrow> pystr \<Rightarrow> exn + datetime" where
  "DatetimeConverter_convert ctx argument =
     (let timezone = DatetimeConverter_get_timezone ctx;
          now = message_created_at ctx
      in case duckling (ctx_bot ctx) of
           None \<Rightarrow> Inl (RuntimeError ''No Duckling instance available to perform this action.'')
         | Some key \<Rightarrow>
             (case parse (ctx_bot ctx) argument timezone (Some now) (build_url key) of
                Inl e \<Rightarrow> Inl e
              | Inr [] \<Rightarrow> Inl (BadArgument ''Could not parse time.'')
              | Inr ((when, _) # _) \<Rightarrow> Inr when))"

definition WhenAndWhatConverter_convert :: "Context \<Rightarrow> pystr \<Rightarrow> exn + (datetime \<times> pystr)" where
  "WhenAndWhatConverter_convert ctx argument0 =
     (let timezone = DatetimeConverter_get_timezone ctx;
          now = message_created_at ctx;
          argument = strip_common argument0
      in case duckling (ctx_bot ctx) of
           None \<Rightarrow> Inl (RuntimeError ''No Duckling instance available to perform this action.'')
         | Some key \<Rightarrow>
             (case parse (ctx_bot ctx) argument timezone (Some now) (build_url key) of
                Inl e \<Rightarrow> Inl e
              | Inr [] \<Rightarrow> Inl (BadArgument ''Could not parse time.'')
              | Inr ((when, begin, end') # _) \<Rightarrow>
                  if begin \<noteq> 0 \<and> end' \<noteq> py_len argument
                  then Inl (BadArgument ''Could not distinguish time from argument.'')
                  else
                    (let what = residual argument begin end'
                     in Inr (when, if what \<noteq> [] then what else ellipsis))))"

definition WhenAndWhatTransformer_transform :: "Interaction \<Rightarrow> pystr \<Rightarrow> exn + datetime" where
  "WhenAndWhatTransformer_transform interaction value0 =
     (let timezone = WhenAndWhatTransformer_get_timezone interaction;
          now = created_at interaction;
          val = strip_common value0
      in case duckling (client interaction) of
           None \<Rightarrow> Inl (RuntimeError ''No Duckling instance available to perform this action.'')
         | Some key \<Rightarrow>
             (case parse (client interaction) val timezone (Some now) (build_url key) of
                Inl e \<Rightarrow> Inl e
              | Inr [] \<Rightarrow> Inl (BadDatetimeTransform ''Could not parse time.'')
              | Inr ((when, begin, end') # _) \<Rightarrow>
                  if begin \<noteq> 0 \<and> end' \<noteq> py_len val
                  then Inl (BadDatetimeTransform ''Could not distinguish time from argument.'')
                  else
                    (let what = residual val begin end'
                     in Inr when)))"

section \<open>Characters beyond ASCII and other built-ins\<close>

text \<open>
  The classes of the ASCII characters are written out. For the other code points the
  Unicode database of the interpreter decides: whether a character is a digit
  (\<open>str.isdigit\<close>: numeric type Digit or Decimal), its value when it is a decimal digit
  (what \<open>int\<close> accepts), whether it is alphanumeric (\<open>\w\<close> in a \<open>str\<close> pattern). These
  tables, and \<open>repr\<close> on strings, are parameters of the model.
\<close>

record runtime =
  unicode_digit :: "nat \<Rightarrow> bool"
  unicode_decimal :: "nat \<Rightarrow> nat option"
  unicode_alnum :: "nat \<Rightarrow> bool"
  repr :: "pystr \<Rightarrow> pystr"

definition isdigit_char :: "runtime \<Rightarrow> nat \<Rightarrow> bool" where
  "isdigit_char rt c = (if c < 128 then 48 \<le> c \<and> c \<le> 57 else unicode_digit rt c)"

definition decimal_char :: "runtime \<Rightarrow> nat \<Rightarrow> nat option" where
  "decimal_char rt c =
     (if c < 128 then (if 48 \<le> c \<and> c \<le> 57 then Some (c - 48) else None)
      else unicode_decimal rt c)"

definition isword_char :: "runtime \<Rightarrow> nat \<Rightarrow> bool" where
  "isword_char rt c =
     (if c < 128
      then (48 \<le> c \<and> c \<le> 57) \<or> (65 \<le> c \<and> c \<le> 90) \<or> (97 \<le> c \<and> c \<le> 122) \<or> c = 95
      else unicode_alnum rt c)"

text \<open>\<open>str.isdigit\<close>: at least one character, and all of them digits.\<close>

definition isdigit :: "runtime \<Rightarrow> pystr \<Rightarrow> bool" where
  "isdigit rt s = (s \<noteq> [] \<and> list_all (isdigit_char rt) s)"

text \<open>
  \<open>int(s)\<close> on a string of digit characters, the only strings it is called on: the
  decimal value, or \<open>ValueError\<close> when a character is a digit that is not decimal (a
  superscript two, for one).
\<close>

fun decimal_value :: "runtime \<Rightarrow> nat \<Rightarrow> pystr \<Rightarrow> nat option" where
  "decimal_value rt acc [] = Some acc"
| "decimal_value rt acc (c # cs) =
     (case decimal_char rt c of
        None \<Rightarrow> None
      | Some d \<Rightarrow> decimal_value rt (acc * 10 + d) cs)"

definition py_int :: "runtime \<Rightarrow> pystr \<Rightarrow> exn + int" where
  "py_int rt s =
     (if s = [] then Inl ValueError
      else case decimal_value rt 0 s of None \<Rightarrow> Inl ValueError | Some n \<Rightarrow> Inr (int n))"

text \<open>\<open>str(n)\<close> for an integer: its decimal digits, after a minus sign when negative.\<close>

fun digits :: "nat \<Rightarrow> pystr" where
  "digits n = (if n < 10 then [48 + n] else digits (n div 10) @ [48 + n mod 10])"

declare digits.simps [simp del]

definition py_str :: "int \<Rightarrow> pystr" where
  "py_str i = (if i < 0 then 45 # digits (nat (- i)) else digits (nat i))"

text \<open>
  \<open>s.replace(old, new)\<close> replaces every occurrence of \<open>old\<close>, from left to right and
  without overlap. An empty \<open>old\<close> matches before every character and at the end.
\<close>

fun replace_scan :: "pystr \<Rightarrow> pystr \<Rightarrow> pystr \<Rightarrow> pystr" where
  "replace_scan old new [] = []"
| "replace_scan old new (c # cs) =
     (if startswith (c # cs) old then new @ replace_scan old new (drop (length old - 1) cs)
      else c # replace_scan old new cs)"

definition py_replace :: "pystr \<Rightarrow> pystr \<Rightarrow> pystr \<Rightarrow> pystr" where
  "py_replace s old new =
     (if old = [] then new @ concat (map (\<lambda>c. c # new) s) else replace_scan old new s)"


section \<open>Paste identifiers\<close>

text \<open>
  \<open>MYSTBIN_REGEX\<close> is
  \<^verbatim>\<open>(?:(?:https?://)?(?:beta\.)?(?:mystb\.in\/))?(?P<id>(?:[A-Z]{1}[a-z]+)*)(?P<ext>\.\w+)?\<close>.
  A piece of the pattern is a function from the text still to be read to the list of the
  texts that may remain after it, in the order in which the backtracking matcher of \<open>re\<close>
  tries them: a greedy optional piece first with, then without; a greedy repetition from
  the longest to the shortest.
\<close>

type_synonym matcher = "pystr \<Rightarrow> pystr list"

definition lit :: "pystr \<Rightarrow> matcher" where
  "lit l s = (if startswith s l then [drop (length l) s] else [])"

definition opt :: "matcher \<Rightarrow> matcher" where
  "opt m s = m s @ [s]"

definition seq :: "matcher \<Rightarrow> matcher \<Rightarrow> matcher" where
  "seq m1 m2 s = concat (map m2 (m1 s))"

definition url_prefix :: matcher where
  "url_prefix =
     opt (seq (opt (seq (lit (ustr ''http'')) (seq (opt (lit (ustr ''s''))) (lit (ustr ''://'')))))
         (seq (opt (lit (ustr ''beta.''))) (lit (ustr ''mystb.in/''))))"

text \<open>\<open>c*\<close> and \<open>c+\<close> over a character class, greedy.\<close>

fun class_star :: "(nat \<Rightarrow> bool) \<Rightarrow> matcher" where
  "class_star cls [] = [] # []"
| "class_star cls (c # cs) = (if cls c then class_star cls cs @ [c # cs] else [c # cs])"

definition class_plus :: "(nat \<Rightarrow> bool) \<Rightarrow> matcher" where
  "class_plus cls s = (case s of [] \<Rightarrow> [] | c # cs \<Rightarrow> if cls c then class_star cls cs else [])"

definition upper :: "nat \<Rightarrow> bool" where
  "upper c = (65 \<le> c \<and> c \<le> 90)"

definition lower :: "nat \<Rightarrow> bool" where
  "lower c = (97 \<le> c \<and> c \<le> 122)"

definition capitalised :: matcher where
  "capitalised s = (case s of [] \<Rightarrow> [] | c # cs \<Rightarrow> if upper c then class_plus lower cs else [])"

text \<open>
  The group \<open>id\<close>, \<^verbatim>\<open>(?:[A-Z]{1}[a-z]+)*\<close>: one more capitalised word and the rest of the
  repetition, for every way of reading that word, and last no word at all.
\<close>

function id_group :: matcher where
  "id_group s = concat (map id_group (capitalised s)) @ [s]"
  by pat_completeness auto
termination
proof (relation "measure length")
  show "wf (measure length)" by simp
next
  fix s r :: pystr
  assume r: "r \<in> set (capitalised s)"
  have star: "length u \<le> length t" if "u \<in> set (class_star cls t)" for cls u t
    using that by (induction t) (auto split: if_splits)
  from r have "length r < length s"
    by (auto simp: capitalised_def class_plus_def split: list.splits if_splits dest!: star)
  then show "(r, s) \<in> measure length" by simp
qed

declare id_group.simps [simp del]

definition ext_group :: "runtime \<Rightarrow> matcher" where
  "ext_group rt = opt (seq (lit (ustr ''.'')) (class_plus (isword_char rt)))"

text \<open>
  The matches of the whole pattern at the start of \<open>s\<close>, best first, each with the text of
  the group \<open>id\<close>; \<open>re.search\<close> takes the best match at the leftmost position that has one.
\<close>

definition matches_at :: "runtime \<Rightarrow> pystr \<Rightarrow> pystr list" where
  "matches_at rt s =
     concat (map (\<lambda>r1.
       concat (map (\<lambda>r2.
         map (\<lambda>r3. take (length r1 - length r2) r1) (ext_group rt r2))
       (id_group r1)))
     (url_prefix s))"

fun search :: "runtime \<Rightarrow> pystr \<Rightarrow> pystr option" where
  "search rt [] = (case matches_at rt [] of [] \<Rightarrow> None | m # _ \<Rightarrow> Some m)"
| "search rt (c # cs) = (case matches_at rt (c # cs) of [] \<Rightarrow> search rt cs | m # _ \<Rightarrow> Some m)"

definition MystbinPasteConverter_convert :: "runtime \<Rightarrow> pystr \<Rightarrow> exn + pystr" where
  "MystbinPasteConverter_convert rt argument =
     (case search rt argument of
        None \<Rightarrow> Inl (ConversionError ''No Mystbin IDs found in this text.'')
      | Some matched_id \<Rightarrow> Inr matched_id)"

section \<open>The paginator\<close>

text \<open>
  What \<open>format_page\<close> may return: a dictionary of keyword arguments, a string, an embed,
  or anything else. Embeds are opaque (\<open>'e\<close>), and so are page payloads (\<open>'p\<close>).
\<close>

datatype 'e kwvalue = Text pystr | Embed 'e | NoneValue

type_synonym 'e kwargs = "(string \<times> 'e kwvalue) list"

datatype 'e formatted = Dict "'e kwargs" | Str pystr | AnEmbed 'e | Other

text \<open>
  A page source as the view uses it. \<open>get_page\<close> and \<open>format_page\<close> may raise;
  \<open>format_page\<close> is handed the menu, from which the sources of this module read
  \<open>current_page\<close>.
\<close>

record ('p, 'e) PageSource =
  get_max_pages :: "int option"
  get_page :: "int \<Rightarrow> exn + 'p"
  format_page :: "int \<Rightarrow> 'p \<Rightarrow> exn + 'e formatted"

record button =
  label :: pystr
  disabled :: bool

text \<open>
  The view. \<open>message\<close> is \<open>None\<close> before the first message is sent; afterwards it holds
  the edits made to that message, oldest first.
\<close>

record ('p, 'e) RoboPages =
  source :: "('p, 'e) PageSource"
  message :: "'e kwargs list option"
  current_page :: int
  compact :: bool
  go_to_first_page_button :: button
  go_to_previous_page_button :: button
  go_to_current_page_button :: button
  go_to_next_page_button :: button
  go_to_last_page_button :: button

text \<open>
  One interaction: whether its response has been used, and what was sent through it. A
  second response to the same interaction raises \<open>InteractionResponded\<close>; follow-ups are
  always possible.
\<close>

datatype 'e outgoing =
    EditMessage "'e kwargs"
  | SendMessage pystr bool
  | SendModal pystr
  | FollowupSend pystr bool

record 'e interaction =
  is_done :: bool
  outbox :: "'e outgoing list"

definition respond :: "'e interaction \<Rightarrow> 'e outgoing \<Rightarrow> exn + 'e interaction" where
  "respond i out =
     (if is_done i then Inl InteractionResponded
      else Inr (i\<lparr>is_done := True, outbox := outbox i @ [out]\<rparr>))"

definition followup_send :: "'e interaction \<Rightarrow> pystr \<Rightarrow> 'e interaction" where
  "followup_send i content = i\<lparr>outbox := outbox i @ [FollowupSend content True]\<rparr>"

record modal =
  placeholder :: pystr
  max_length :: "nat option"

definition NumberedPageModal :: "int option \<Rightarrow> modal" where
  "NumberedPageModal max_pages =
     (case max_pages of
        None \<Rightarrow> \<lparr>placeholder = ustr ''Enter a number'', max_length = None\<rparr>
      | Some m \<Rightarrow>
          (let as_string = py_str m
           in \<lparr>placeholder = ustr ''Enter a number between 1 and '' @ as_string,
               max_length = Some (length as_string)\<rparr>))"

definition get_kwargs_from_page ::
  "('p, 'e) RoboPages \<Rightarrow> 'p \<Rightarrow> exn + 'e kwargs" where
  "get_kwargs_from_page v page =
     (case format_page (source v) (current_page v) page of
        Inl e \<Rightarrow> Inl e
      | Inr (Dict d) \<Rightarrow> Inr d
      | Inr (Str s) \<Rightarrow> Inr [(''content'', Text s), (''embed'', NoneValue)]
      | Inr (AnEmbed e) \<Rightarrow> Inr [(''embed'', Embed e), (''content'', NoneValue)]
      | Inr Other \<Rightarrow> Inr [])"

definition update_labels :: "('p, 'e) RoboPages \<Rightarrow> int \<Rightarrow> ('p, 'e) RoboPages" where
  "update_labels v0 page_number =
     (let v = v0\<lparr>go_to_first_page_button :=
                  (go_to_first_page_button v0)\<lparr>disabled := (page_number = 0)\<rparr>\<rparr>;
          max_pages = get_max_pages (source v)
      in if compact v then
           v\<lparr>go_to_last_page_button := (go_to_last_page_button v)
                \<lparr>disabled := (case max_pages of None \<Rightarrow> True | Some m \<Rightarrow> page_number + 1 \<ge> m)\<rparr>,
             go_to_next_page_button := (go_to_next_page_button v)
                \<lparr>disabled := (case max_pages of None \<Rightarrow> False | Some m \<Rightarrow> page_number + 1 \<ge> m)\<rparr>,
             go_to_previous_page_button := (go_to_previous_page_button v)
                \<lparr>disabled := (page_number = 0)\<rparr>\<rparr>
         else
           (let v = v\<lparr>go_to_current_page_button := (go_to_current_page_button v)
                         \<lparr>label := py_str (page_number + 1)\<rparr>,
                       go_to_previous_page_button :=
                         \<lparr>label = py_str page_number, disabled = False\<rparr>,
                       go_to_next_page_button :=
                         \<lparr>label = py_str (page_number + 2), disabled = False\<rparr>,
                       go_to_first_page_button := (go_to_first_page_button v)
                         \<lparr>disabled := False\<rparr>\<rparr>
            in case max_pages of
                 None \<Rightarrow> v
               | Some m \<Rightarrow>
                   (let v = v\<lparr>go_to_last_page_button := (go_to_last_page_button v)
                                \<lparr>disabled := (page_number + 1 \<ge> m)\<rparr>\<rparr>;
                        v = (if page_number + 1 \<ge> m
                             then v\<lparr>go_to_next_page_button :=
                                      \<lparr>label = ellipsis, disabled = True\<rparr>\<rparr>
                             else v)
                    in if page_number = 0
                       then v\<lparr>go_to_previous_page_button :=
                                \<lparr>label = ellipsis, disabled = True\<rparr>\<rparr>
                       else v)))"

text \<open>
  Every method that may raise returns the exception, if any, next to the view and the
  interaction as they are at that moment: what was assigned before the exception stays
  assigned.
\<close>

definition show_page ::
  "('p, 'e) RoboPages \<Rightarrow> 'e interaction \<Rightarrow> int
     \<Rightarrow> exn option \<times> ('p, 'e) RoboPages \<times> 'e interaction" where
  "show_page v0 i page_number =
     (case get_page (source v0) page_number of
        Inl e \<Rightarrow> (Some e, v0, i)
      | Inr page \<Rightarrow>
          (let v = v0\<lparr>current_page := page_number\<rparr>
           in case get_kwargs_from_page v page of
                Inl e \<Rightarrow> (Some e, v, i)
              | Inr kwargs \<Rightarrow>
                  (let v = update_labels v page_number
                   in if kwargs \<noteq> [] then
                        (if is_done i then
                           (case message v of
                              Some edits \<Rightarrow> (None, v\<lparr>message := Some (edits @ [kwargs])\<rparr>, i)
                            | None \<Rightarrow> (None, v, i))
                         else (None, v, i\<lparr>is_done := True,
                                          outbox := outbox i @ [EditMessage kwargs]\<rparr>))
                      else (None, v, i))))"

definition show_checked_page ::
  "('p, 'e) RoboPages \<Rightarrow> 'e interaction \<Rightarrow> int
     \<Rightarrow> exn option \<times> ('p, 'e) RoboPages \<times> 'e interaction" where
  "show_checked_page v i page_number =
     (let max_pages = get_max_pages (source v);
          (raised, v', i') =
            (case max_pages of
               None \<Rightarrow> show_page v i page_number
             | Some m \<Rightarrow>
                 if m > page_number \<and> page_number \<ge> 0 then show_page v i page_number
                 else (None, v, i))
      in if raised = Some IndexError then (None, v', i') else (raised, v', i'))"

definition go_to_first_page ::
  "('p, 'e) RoboPages \<Rightarrow> 'e interaction \<Rightarrow> exn option \<times> ('p, 'e) RoboPages \<times> 'e interaction" where
  "go_to_first_page v i = show_page v i 0"

definition go_to_previous_page ::
  "('p, 'e) RoboPages \<Rightarrow> 'e interaction \<Rightarrow> exn option \<times> ('p, 'e) RoboPages \<times> 'e interaction" where
  "go_to_previous_page v i = show_checked_page v i (current_page v - 1)"

definition go_to_next_page ::
  "('p, 'e) RoboPages \<Rightarrow> 'e interaction \<Rightarrow> exn option \<times> ('p, 'e) RoboPages \<times> 'e interaction" where
  "go_to_next_page v i = show_checked_page v i (current_page v + 1)"

definition go_to_last_page ::
  "('p, 'e) RoboPages \<Rightarrow> 'e interaction \<Rightarrow> exn option \<times> ('p, 'e) RoboPages \<times> 'e interaction" where
  "go_to_last_page v i =
     (case get_max_pages (source v) of
        None \<Rightarrow> (Some TypeError, v, i)
      | Some m \<Rightarrow> show_page v i (m - 1))"

text \<open>
  \<open>numbered_page\<close>. What the user does with the modal is an input: the wait times out,
  or the modal is submitted with a text through an interaction of its own;
  \<open>is_finished\<close> tells whether the view has stopped in the meantime. The result holds
  the interaction of the button and, when there is one, that of the modal.
\<close>

datatype 'e modal_wait = TimedOut | Submitted pystr "'e interaction"

definition numbered_page ::
  "runtime \<Rightarrow> ('p, 'e) RoboPages \<Rightarrow> 'e interaction \<Rightarrow> 'e modal_wait \<Rightarrow> bool
     \<Rightarrow> exn option \<times> ('p, 'e) RoboPages \<times> 'e interaction \<times> 'e interaction option" where
  "numbered_page rt v i wait is_finished =
     (case message v of
        None \<Rightarrow> (None, v, i, None)
      | Some _ \<Rightarrow>
          (let modal = NumberedPageModal (get_max_pages (source v))
           in case respond i (SendModal (placeholder modal)) of
                Inl e \<Rightarrow> (Some e, v, i, None)
              | Inr i \<Rightarrow>
                  (case wait of
                     TimedOut \<Rightarrow> (None, v, followup_send i (ustr ''Took too long''), None)
                   | Submitted val mi \<Rightarrow>
                       if is_finished then
                         (case respond mi (SendMessage (ustr ''Took too long'') True) of
                            Inl e \<Rightarrow> (Some e, v, i, Some mi)
                          | Inr mi \<Rightarrow> (None, v, i, Some mi))
                       else if \<not> isdigit rt val then
                         (case respond mi
                                 (SendMessage (ustr ''Expected a number not '' @ repr rt val) True) of
                            Inl e \<Rightarrow> (Some e, v, i, Some mi)
                          | Inr mi \<Rightarrow> (None, v, i, Some mi))
                       else
                         (case py_int rt val of
                            Inl e \<Rightarrow> (Some e, v, i, Some mi)
                          | Inr n \<Rightarrow>
                              (case show_checked_page v mi (n - 1) of
                                 (Some e, v, mi) \<Rightarrow> (Some e, v, i, Some mi)
                               | (None, v, mi) \<Rightarrow>
                                   if \<not> is_done mi then
                                     (case respond mi
                                             (SendMessage
                                                (py_replace (placeholder modal) (ustr ''Enter'')
                                                   (ustr ''Expected'')) True) of
                                        Inl e \<Rightarrow> (Some e, v, i, Some mi)
                                      | Inr mi \<Rightarrow> (None, v, i, Some mi))
                                   else (None, v, i, Some mi))))))"

section \<open>Example contexts\<close>

definition example_bot :: "DucklingResponse list \<Rightarrow> bot" where
  "example_bot data =
     \<lparr>tz_store = (\<lambda>_. None),
      duckling = Some \<lparr>host = ustr ''localhost'', port = 8000\<rparr>,
      session_post = (\<lambda>_ _. data),
      fromisoformat = (\<lambda>_. None),
      utcnow = (\<lambda>k. 1700000005000000 + int k)\<rparr>"

definition example_duration :: "int \<Rightarrow> int \<Rightarrow> int \<Rightarrow> DucklingResponse" where
  "example_duration seconds start end' =
     \<lparr>body = [], dim = ustr ''duration'', span_end = end', span_start = start,
      latent = False, value_value = None, value_normalized_value = seconds\<rparr>"

definition example_ctx :: "DucklingResponse list \<Rightarrow> Context" where
  "example_ctx data =
     \<lparr>ctx_bot = example_bot data, author_id = 1, message_created_at = 1700000000000000\<rparr>"

definition example_interaction :: "DucklingResponse list \<Rightarrow> Interaction" where
  "example_interaction data =
     \<lparr>client = example_bot data, user_id = 1, guild = Some 7, created_at = 1700000000000000\<rparr>"

definition example_key :: duckling_key where
  "example_key = \<lparr>host = ustr ''localhost'', port = 8000\<rparr>"

definition example_runtime :: runtime where
  "example_runtime =
     \<lparr>unicode_digit = (\<lambda>c. c = 178), unicode_decimal = (\<lambda>_. None),
      unicode_alnum = (\<lambda>_. False), repr = (\<lambda>s. 39 # s @ [39])\<rparr>"

definition ten_pages :: "(int, unit) PageSource" where
  "ten_pages =
     \<lparr>get_max_pages = Some 10,
      get_page = (\<lambda>n. if 0 \<le> n \<and> n < 10 then Inr n else Inl IndexError),
      format_page = (\<lambda>current page. Inr (Str (py_str page)))\<rparr>"

definition endless_pages :: "(int, unit) PageSource" where
  "endless_pages =
     \<lparr>get_max_pages = None,
      get_page = (\<lambda>n. Inr n),
      format_page = (\<lambda>current page. Inr (Str (py_str page)))\<rparr>"

definition example_button :: button where
  "example_button = \<lparr>label = [], disabled = False\<rparr>"

definition example_view :: "(int, unit) PageSource \<Rightarrow> int \<Rightarrow> (int, unit) RoboPages" where
  "example_view src page =
     \<lparr>source = src, message = Some [], current_page = page, compact = False,
      go_to_first_page_button = example_button, go_to_previous_page_button = example_button,
      go_to_current_page_button = example_button, go_to_next_page_button = example_button,
      go_to_last_page_button = example_button\<rparr>"

definition fresh :: "unit interaction" where
  "fresh = \<lparr>is_done = False, outbox = []\<rparr>"

section \<open>Properties of the temporal-phrase splitter\<close>

lemma slice_from_nonneg: "0 \<le> i \<Longrightarrow> slice_from s i = drop (nat i) s"
  by (auto simp: slice_from_def slice_index_def py_len_def min_def)

lemma slice_to_nonneg: "0 \<le> i \<Longrightarrow> slice_to s i = take (nat i) s"
  by (auto simp: slice_to_def slice_index_def py_len_def min_def)

lemma residual_whole: "residual s 0 (py_len s) = []"
  by (simp add: residual_def slice_from_nonneg py_len_def lstrip_chars_def startswith_def ustr_def)

lemma dropWhile_rstrip:
  "dropWhile P (rev (dropWhile P (rev (dropWhile P s)))) = rev (dropWhile P (rev (dropWhile P s)))"
proof (cases "dropWhile P s")
  case Nil
  then show ?thesis by (simp del: dropWhile_eq_Nil_conv)
next
  case (Cons x xs)
  then have nx: "\<not> P x" by (metis dropWhile_eq_Cons_conv)
  have "\<exists>ys. dropWhile P (rev xs @ [x]) = ys @ [x]"
  proof (cases "\<forall>y \<in> set (rev xs). P y")
    case True
    then have "dropWhile P (rev xs @ [x]) = dropWhile P [x]"
      by (intro dropWhile_append2) simp
    then have "dropWhile P (rev xs @ [x]) = [] @ [x]"
      using nx by simp
    then show ?thesis by blast
  next
    case False
    then have "dropWhile P (rev xs @ [x]) = dropWhile P (rev xs) @ [x]"
      by (auto simp: dropWhile_append1)
    then show ?thesis by blast
  qed
  then obtain ys where "dropWhile P (rev xs @ [x]) = ys @ [x]" by blast
  then show ?thesis using Cons nx by simp
qed

lemma strip_idem: "strip (strip s) = strip s"
  by (simp add: strip_def lstrip_def rstrip_def dropWhile_rstrip)

lemma strip_prefixes_none:
  "\<forall>p \<in> set ps. \<not> startswith s p \<Longrightarrow> strip_prefixes ps s = s"
  by (induction ps) auto

lemma strip_common_fixed:
  assumes "\<forall>p \<in> set [ustr ''me to '', ustr ''me in '', ustr ''me at '', ustr ''me that ''].
             \<not> startswith (strip_common s) p"
    and "\<not> endswith (strip_common s) (ustr ''from now'')"
  shows "strip_common (strip_common s) = strip_common s"
proof -
  define t where "t = strip_common s"
  have st: "strip t = t"
    unfolding t_def strip_common_def by (rule strip_idem)
  have "strip_prefixes [ustr ''me to '', ustr ''me in '', ustr ''me at '', ustr ''me that ''] t = t"
    using assms(1) unfolding t_def by (rule strip_prefixes_none)
  moreover have "strip_suffix (ustr ''from now'') t = t"
    using assms(2) unfolding t_def by (simp add: strip_suffix_def)
  ultimately have "strip_common t = t"
    using st by (simp add: strip_common_def)
  then show ?thesis by (simp add: t_def)
qed

lemma length_strip_le: "length (strip s) \<le> length s"
proof -
  have "length (dropWhile P xs) \<le> length xs" for P and xs :: pystr
    by (rule length_dropWhile_le)
  then show ?thesis
    unfolding strip_def lstrip_def rstrip_def
    by (metis length_rev le_trans)
qed

lemma length_strip_suffix_le: "length (strip_suffix x s) \<le> length s"
  by (simp add: strip_suffix_def slice_to_def)

lemma strip_suffix_shorter:
  "endswith s (ustr ''from now'') \<Longrightarrow> length (strip_suffix (ustr ''from now'') s) < length s"
  by (auto simp: strip_suffix_def endswith_def slice_to_def slice_index_def py_len_def ustr_def)

lemma strip_prefixes_shorter:
  "\<exists>p \<in> set ps. startswith s p \<Longrightarrow> \<forall>p \<in> set ps. p \<noteq> [] \<Longrightarrow>
   length (strip_prefixes ps s) < length s"
proof (induction ps)
  case Nil
  then show ?case by simp
next
  case (Cons p ps)
  show ?case
  proof (cases "startswith s p")
    case True
    then have le: "length p \<le> length s"
      by (metis startswith_def length_take min.cobounded1 min.commute)
    have pos: "0 < length p" using Cons.prems(2) by simp
    have eq: "length (strip_prefixes (p # ps) s) = length s - length p"
      using True by (simp add: slice_from_def slice_index_def py_len_def)
    from le pos show ?thesis unfolding eq by arith
  next
    case False
    then show ?thesis using Cons by auto
  qed
qed

lemma strip_common_shorter:
  assumes "startswith t (ustr ''me to '') \<or> startswith t (ustr ''me in '')
           \<or> startswith t (ustr ''me at '') \<or> startswith t (ustr ''me that '')
           \<or> endswith t (ustr ''from now'')"
  shows "length (strip_common t) < length t"
proof -
  let ?ps = "[ustr ''me to '', ustr ''me in '', ustr ''me at '', ustr ''me that '']"
  have ne: "\<forall>p \<in> set ?ps. p \<noteq> []" by (simp add: ustr_def)
  show ?thesis
  proof (cases "\<exists>p \<in> set ?ps. startswith t p")
    case True
    then have "length (strip_prefixes ?ps t) < length t"
      using ne by (rule strip_prefixes_shorter)
    moreover have "length (strip_common t) \<le> length (strip_prefixes ?ps t)"
      unfolding strip_common_def
      by (rule le_trans [OF length_strip_le length_strip_suffix_le])
    ultimately show ?thesis by simp
  next
    case False
    then have p: "strip_prefixes ?ps t = t" by (intro strip_prefixes_none) simp
    from False assms have "endswith t (ustr ''from now'')" by auto
    then have "length (strip_suffix (ustr ''from now'') t) < length t"
      by (rule strip_suffix_shorter)
    moreover have "length (strip_common t) \<le> length (strip_suffix (ustr ''from now'') t)"
      unfolding strip_common_def p by (rule length_strip_le)
    ultimately show ?thesis by simp
  qed
qed

lemmas str_eval = startswith_def endswith_def slice_from_def slice_to_def slice_index_def
  py_len_def strip_def lstrip_def rstrip_def lstrip_chars_def isspace_def ustr_def

lemmas split_eval = strip_common_def strip_suffix_def residual_def ellipsis_def

lemmas parse_eval = parse_def build_url_def add_seconds_def datetime_min_def datetime_max_def
  DatetimeConverter_get_timezone_def WhenAndWhatTransformer_get_timezone_def get_timezone_def

lemmas example_eval = example_bot_def example_ctx_def example_duration_def example_interaction_def example_key_def

lemma convert_selected:
  assumes "duckling (ctx_bot ctx) = Some key"
    and "parse (ctx_bot ctx) (strip_common argument) (DatetimeConverter_get_timezone ctx)
           (Some (message_created_at ctx)) (build_url key) = Inr ((when, begin, end') # rest)"
  shows "WhenAndWhatConverter_convert ctx argument =
           (if begin \<noteq> 0 \<and> end' \<noteq> py_len (strip_common argument)
            then Inl (BadArgument ''Could not distinguish time from argument.'')
            else Inr (when, if residual (strip_common argument) begin end' \<noteq> []
                            then residual (strip_common argument) begin end' else ellipsis))"
  using assms by (simp add: WhenAndWhatConverter_convert_def Let_def)

lemma transform_selected:
  assumes "duckling (client i) = Some key"
    and "parse (client i) (strip_common v) (WhenAndWhatTransformer_get_timezone i)
           (Some (created_at i)) (build_url key) = Inr ((when, begin, end') # rest)"
  shows "WhenAndWhatTransformer_transform i v =
           (if begin \<noteq> 0 \<and> end' \<noteq> py_len (strip_common v)
            then Inl (BadDatetimeTransform ''Could not distinguish time from argument.'')
            else Inr when)"
  using assms by (simp add: WhenAndWhatTransformer_transform_def Let_def)

lemma parse_loop_error: "parse_loop b k ts = Inl e \<Longrightarrow> e = ValueError \<or> e = OverflowError"
proof (induction ts arbitrary: k e)
  case Nil
  then show ?case by simp
next
  case (Cons t ts)
  then show ?case
    by (auto simp: add_seconds_def Let_def split: if_splits option.splits sum.splits)
qed

text \<open>
  In general the result of \<open>parse\<close> does not depend on the reference time it is given.
\<close>

lemma parse_now_irrelevant:
  "parse b argument timezone (Some now) u = parse b argument timezone (Some now') u"
  by (simp add: parse_def)

text \<open>
  Claim C1 as stated fails: for "in 2 hours-!to buy milk" with the span (0, 10) the
  converter returns "buy milk", while the text after the end offset with leading space,
  comma, period, colon and semicolon removed is "-!to buy milk".
\<close>

theorem strict_prefix_residual_counterexample:
  "parse (ctx_bot (example_ctx [example_duration 7200 0 10]))
     (strip_common (ustr ''in 2 hours-!to buy milk''))
     (DatetimeConverter_get_timezone (example_ctx [example_duration 7200 0 10]))
     (Some (message_created_at (example_ctx [example_duration 7200 0 10])))
     (build_url example_key) = Inr [(1700007205000000, 0, 10)]
   \<and> 10 < py_len (strip_common (ustr ''in 2 hours-!to buy milk''))
   \<and> WhenAndWhatConverter_convert (example_ctx [example_duration 7200 0 10])
        (ustr ''in 2 hours-!to buy milk'')
       \<noteq> Inr (1700007205000000,
              lstrip_chars (slice_from (strip_common (ustr ''in 2 hours-!to buy milk'')) 10)
                (ustr '' ,.:;''))"
  by (simp add: WhenAndWhatConverter_convert_def parse_eval example_eval split_eval str_eval)

text \<open>
  Claim C1, as amended. When the selected span is a strict prefix (begin 0 and
  0 \<le> end < length), the label is the text from offset end + 1 on (the character at the
  end offset is skipped), with leading characters among space, comma, period, exclamation
  mark, colon and semicolon removed, then one leading "to " removed, and the ellipsis
  placeholder when nothing is left.
\<close>

theorem strict_prefix_residual:
  assumes "duckling (ctx_bot ctx) = Some key"
    and "parse (ctx_bot ctx) (strip_common argument) (DatetimeConverter_get_timezone ctx)
           (Some (message_created_at ctx)) (build_url key) = Inr ((when, 0, end') # rest)"
    and "0 \<le> end'" and "end' < py_len (strip_common argument)"
  shows "WhenAndWhatConverter_convert ctx argument =
           Inr (when,
             let what = lstrip_chars (drop (nat end' + 1) (strip_common argument)) (ustr '' ,.!:;'');
                 what = (if startswith what (ustr ''to '') then drop 3 what else what)
             in if what \<noteq> [] then what else ellipsis)"
proof -
  have "residual (strip_common argument) 0 end' =
          (let what = lstrip_chars (drop (nat end' + 1) (strip_common argument)) (ustr '' ,.!:;'')
           in if startswith what (ustr ''to '') then drop 3 what else what)"
    using assms(3)
    by (simp add: residual_def slice_from_nonneg Let_def nat_add_distrib py_len_def ustr_def)
  then show ?thesis
    using assms by (simp add: convert_selected Let_def)
qed

text \<open>
  An instance of the amended C1: "in 2 hours, to buy milk" with the span (0, 10).
\<close>

theorem strict_prefix_residual_witness:
  "WhenAndWhatConverter_convert (example_ctx [example_duration 7200 0 10])
     (ustr ''in 2 hours, to buy milk'') = Inr (1700007205000000, ustr ''buy milk'')"
proof -
  let ?a = "ustr ''in 2 hours, to buy milk''"
  let ?ctx = "example_ctx [example_duration 7200 0 10]"
  have k: "duckling (ctx_bot ?ctx) = Some example_key"
    by (simp add: example_eval)
  have s: "strip_common ?a = ?a"
    by (simp add: split_eval str_eval)
  have p: "parse (ctx_bot ?ctx) (strip_common ?a) (DatetimeConverter_get_timezone ?ctx)
             (Some (message_created_at ?ctx)) (build_url example_key)
           = Inr ((1700007205000000, 0, 10) # [])"
    by (simp add: parse_eval example_eval ustr_def)
  have l: "(10::int) < py_len (strip_common ?a)"
    unfolding s by (simp add: str_eval)
  from strict_prefix_residual [OF k p _ l] show ?thesis
    unfolding s by (simp add: str_eval ellipsis_def)
qed

text \<open>
  Claim C2 does not hold of the code: with the reference time 1700000000 s and a clock
  that reads 1700000005 s, a duration of 7200 s resolves to 1700007205 s, the clock
  reading plus the duration, not the reference time plus the duration.
\<close>

theorem parse_duration_uses_clock_not_now:
  "parse (example_bot [example_duration 7200 0 10]) (ustr ''in 2 hours'') (ustr ''UTC'')
     (Some 1700000000000000) (build_url example_key) = Inr [(1700007205000000, 0, 10)]
   \<and> (1700007205000000 :: int) \<noteq> 1700000000000000 + 7200 * 1000000"
  by (simp add: parse_eval example_eval ustr_def)

text \<open>
  Claim C3. Once a candidate is selected (the parser is configured and \<open>parse\<close> returns a
  non-empty list, whose head is taken), the converter fails with "Could not distinguish
  time from argument." exactly when the span neither begins at offset 0 nor ends at the
  length of the stripped text; the transformer does the same with its own exception class.
\<close>

theorem ambiguous_iff_neither_prefix_nor_suffix:
  "(duckling (ctx_bot ctx) = Some key \<longrightarrow>
    parse (ctx_bot ctx) (strip_common argument) (DatetimeConverter_get_timezone ctx)
      (Some (message_created_at ctx)) (build_url key) = Inr ((when, begin, end') # rest) \<longrightarrow>
    (WhenAndWhatConverter_convert ctx argument
       = Inl (BadArgument ''Could not distinguish time from argument.'')
     \<longleftrightarrow> begin \<noteq> 0 \<and> end' \<noteq> py_len (strip_common argument)))
   \<and>
   (duckling (client i) = Some key' \<longrightarrow>
    parse (client i) (strip_common v) (WhenAndWhatTransformer_get_timezone i)
      (Some (created_at i)) (build_url key') = Inr ((when', begin', end'') # rest') \<longrightarrow>
    (WhenAndWhatTransformer_transform i v
       = Inl (BadDatetimeTransform ''Could not distinguish time from argument.'')
     \<longleftrightarrow> begin' \<noteq> 0 \<and> end'' \<noteq> py_len (strip_common v)))"
  by (simp add: convert_selected transform_selected)

text \<open>
  An instance of C3 on both sides: a span in the middle of the text is rejected by the
  converter, a span at the end is not rejected by the transformer.
\<close>

theorem ambiguous_iff_neither_prefix_nor_suffix_witness:
  "WhenAndWhatConverter_convert (example_ctx [example_duration 7200 3 10]) (ustr ''in 2 hours to x'')
     = Inl (BadArgument ''Could not distinguish time from argument.'')
   \<and> WhenAndWhatTransformer_transform (example_interaction [example_duration 7200 9 19])
         (ustr ''me to buy milk in 2 hours'')
     \<noteq> Inl (BadDatetimeTransform ''Could not distinguish time from argument.'')"
proof -
  let ?a = "ustr ''in 2 hours to x''" and ?v = "ustr ''me to buy milk in 2 hours''"
  let ?ctx = "example_ctx [example_duration 7200 3 10]"
  let ?i = "example_interaction [example_duration 7200 9 19]"
  have k: "duckling (ctx_bot ?ctx) = Some example_key"
    by (simp add: example_eval)
  have p: "parse (ctx_bot ?ctx) (strip_common ?a) (DatetimeConverter_get_timezone ?ctx)
             (Some (message_created_at ?ctx)) (build_url example_key)
           = Inr ((1700007205000000, 3, 10) # [])"
    by (simp add: parse_eval example_eval ustr_def)
  have k': "duckling (client ?i) = Some example_key"
    by (simp add: example_eval)
  have p': "parse (client ?i) (strip_common ?v) (WhenAndWhatTransformer_get_timezone ?i)
             (Some (created_at ?i)) (build_url example_key)
           = Inr ((1700007205000000, 9, 19) # [])"
    by (simp add: parse_eval example_eval ustr_def)
  have l: "py_len (strip_common ?a) = 15" "py_len (strip_common ?v) = 19"
    by (simp_all add: split_eval str_eval)
  note t = ambiguous_iff_neither_prefix_nor_suffix
             [of ?ctx example_key ?a 1700007205000000 3 10 "[]" ?i example_key ?v
                 1700007205000000 9 19 "[]"]
  from t [THEN conjunct1, rule_format, OF k p] t [THEN conjunct2, rule_format, OF k' p'] l
  show ?thesis by simp
qed

text \<open>
  Claim C4. When the selected span covers the whole stripped text (begin 0, end equal to
  its length) the label is the ellipsis placeholder, and the label of every successful
  conversion is non-empty.
\<close>

theorem whole_span_gives_ellipsis_and_what_nonempty:
  "(duckling (ctx_bot ctx) = Some key \<longrightarrow>
    parse (ctx_bot ctx) (strip_common argument) (DatetimeConverter_get_timezone ctx)
      (Some (message_created_at ctx)) (build_url key)
      = Inr ((when, 0, py_len (strip_common argument)) # rest) \<longrightarrow>
    WhenAndWhatConverter_convert ctx argument = Inr (when, ellipsis))
   \<and>
   (\<forall>w what. WhenAndWhatConverter_convert ctx argument = Inr (w, what) \<longrightarrow> what \<noteq> [])"
proof (intro conjI impI allI)
  assume "duckling (ctx_bot ctx) = Some key"
    and "parse (ctx_bot ctx) (strip_common argument) (DatetimeConverter_get_timezone ctx)
      (Some (message_created_at ctx)) (build_url key)
      = Inr ((when, 0, py_len (strip_common argument)) # rest)"
  then show "WhenAndWhatConverter_convert ctx argument = Inr (when, ellipsis)"
    by (simp add: convert_selected residual_whole)
next
  fix w what
  assume "WhenAndWhatConverter_convert ctx argument = Inr (w, what)"
  then show "what \<noteq> []"
    by (auto simp: WhenAndWhatConverter_convert_def Let_def ellipsis_def
             split: option.splits sum.splits list.splits if_splits)
qed

text \<open>
  An instance of C4: the text "in 2 hours" with the span (0, 10).
\<close>

theorem whole_span_gives_ellipsis_and_what_nonempty_witness:
  "WhenAndWhatConverter_convert (example_ctx [example_duration 7200 0 10]) (ustr ''in 2 hours'')
     = Inr (1700007205000000, ellipsis)
   \<and> ellipsis \<noteq> []"
proof -
  let ?a = "ustr ''in 2 hours''"
  let ?ctx = "example_ctx [example_duration 7200 0 10]"
  have k: "duckling (ctx_bot ?ctx) = Some example_key"
    by (simp add: example_eval)
  have l: "py_len (strip_common ?a) = 10"
    by (simp add: split_eval str_eval)
  have p: "parse (ctx_bot ?ctx) (strip_common ?a) (DatetimeConverter_get_timezone ?ctx)
             (Some (message_created_at ?ctx)) (build_url example_key)
           = Inr ((1700007205000000, 0, py_len (strip_common ?a)) # [])"
    unfolding l by (simp add: parse_eval example_eval ustr_def)
  note t = whole_span_gives_ellipsis_and_what_nonempty
             [of ?ctx example_key ?a 1700007205000000 "[]"]
  have c: "WhenAndWhatConverter_convert ?ctx ?a = Inr (1700007205000000, ellipsis)"
    by (rule t [THEN conjunct1, rule_format, OF k p])
  from c t [THEN conjunct2, rule_format, OF c] show ?thesis by simp
qed

text \<open>
  Claim C7 as stated fails: the strip removes one prefix per pass, so a second pass over
  "me to me to x" removes another one.
\<close>

theorem strip_common_not_idempotent:
  "strip_common (strip_common (ustr ''me to me to x'')) \<noteq> strip_common (ustr ''me to me to x'')"
  by (simp add: split_eval str_eval)

text \<open>
  Claim C7, as amended. A second pass returns an already stripped string unchanged
  whenever that string does not itself start with one of the four filler prefixes and
  does not end with "from now"; when it does start with one of them or end with
  "from now", the second pass removes a further prefix or suffix and its result is
  strictly shorter.
\<close>

theorem strip_common_second_pass:
  "(\<not> startswith (strip_common s) (ustr ''me to '')
    \<and> \<not> startswith (strip_common s) (ustr ''me in '')
    \<and> \<not> startswith (strip_common s) (ustr ''me at '')
    \<and> \<not> startswith (strip_common s) (ustr ''me that '')
    \<and> \<not> endswith (strip_common s) (ustr ''from now'')
    \<longrightarrow> strip_common (strip_common s) = strip_common s)
   \<and>
   (startswith (strip_common s) (ustr ''me to '')
    \<or> startswith (strip_common s) (ustr ''me in '')
    \<or> startswith (strip_common s) (ustr ''me at '')
    \<or> startswith (strip_common s) (ustr ''me that '')
    \<or> endswith (strip_common s) (ustr ''from now'')
    \<longrightarrow> length (strip_common (strip_common s)) < length (strip_common s))"
proof (intro conjI impI)
  assume "\<not> startswith (strip_common s) (ustr ''me to '')
    \<and> \<not> startswith (strip_common s) (ustr ''me in '')
    \<and> \<not> startswith (strip_common s) (ustr ''me at '')
    \<and> \<not> startswith (strip_common s) (ustr ''me that '')
    \<and> \<not> endswith (strip_common s) (ustr ''from now'')"
  then show "strip_common (strip_common s) = strip_common s"
    by (intro strip_common_fixed) simp_all
next
  assume "startswith (strip_common s) (ustr ''me to '')
    \<or> startswith (strip_common s) (ustr ''me in '')
    \<or> startswith (strip_common s) (ustr ''me at '')
    \<or> startswith (strip_common s) (ustr ''me that '')
    \<or> endswith (strip_common s) (ustr ''from now'')"
  then show "length (strip_common (strip_common s)) < length (strip_common s)"
    by (rule strip_common_shorter)
qed

text \<open>
  Instances of the amended C7: "buy milk in 2 hours" is left as it is, and "me to x", the
  stripped form of "me to me to x", loses its prefix in a second pass.
\<close>

theorem strip_common_second_pass_witness:
  "strip_common (strip_common (ustr ''me to buy milk in 2 hours from now''))
     = strip_common (ustr ''me to buy milk in 2 hours from now'')
   \<and> strip_common (ustr ''me to buy milk in 2 hours from now'') = ustr ''buy milk in 2 hours''
   \<and> strip_common (ustr ''me to me to x'') = ustr ''me to x''
   \<and> length (strip_common (strip_common (ustr ''me to me to x''))) < 7"
proof -
  have s: "strip_common (ustr ''me to buy milk in 2 hours from now'') = ustr ''buy milk in 2 hours''"
    by (simp add: split_eval str_eval)
  have d: "strip_common (ustr ''me to me to x'') = ustr ''me to x''"
    by (simp add: split_eval str_eval)
  have clean: "\<not> startswith (ustr ''buy milk in 2 hours'') (ustr ''me to '')
    \<and> \<not> startswith (ustr ''buy milk in 2 hours'') (ustr ''me in '')
    \<and> \<not> startswith (ustr ''buy milk in 2 hours'') (ustr ''me at '')
    \<and> \<not> startswith (ustr ''buy milk in 2 hours'') (ustr ''me that '')
    \<and> \<not> endswith (ustr ''buy milk in 2 hours'') (ustr ''from now'')"
    by (simp add: str_eval)
  have dirty: "startswith (ustr ''me to x'') (ustr ''me to '')"
    by (simp add: str_eval)
  note t1 = strip_common_second_pass [of "ustr ''me to buy milk in 2 hours from now''",
              THEN conjunct1, unfolded s, rule_format, OF clean]
  note t2 = strip_common_second_pass [of "ustr ''me to me to x''",
              THEN conjunct2, unfolded d, rule_format, OF disjI1, OF dirty]
  have l: "length (ustr ''me to x'') = 7" by (simp add: ustr_def)
  from t1 t2 s d l show ?thesis by simp
qed

text \<open>
  Claim C9. The transformer returns a bare instant: given the same bot, creation time and
  time zone, its result is the result of the converter with the label dropped (and
  \<open>BadArgument\<close> replaced by \<open>BadDatetimeTransform\<close>), so the label and the ellipsis
  fallback only ever appear in the result of the converter.
\<close>

theorem transform_is_convert_without_label:
  assumes "client i = ctx_bot ctx"
    and "created_at i = message_created_at ctx"
    and "WhenAndWhatTransformer_get_timezone i = DatetimeConverter_get_timezone ctx"
  shows "WhenAndWhatTransformer_transform i v =
           (case WhenAndWhatConverter_convert ctx v of
              Inr (when, what) \<Rightarrow> Inr when
            | Inl (BadArgument m) \<Rightarrow> Inl (BadDatetimeTransform m)
            | Inl e \<Rightarrow> Inl e)"
proof (cases "duckling (ctx_bot ctx)")
  case None
  then show ?thesis
    using assms by (simp add: WhenAndWhatTransformer_transform_def WhenAndWhatConverter_convert_def)
next
  case (Some key)
  show ?thesis
  proof (cases "parse (ctx_bot ctx) (strip_common v) (DatetimeConverter_get_timezone ctx)
                  (Some (message_created_at ctx)) (build_url key)")
    case (Inl e)
    then have "e = ValueError \<or> e = OverflowError"
      by (auto simp: parse_def Let_def dest: parse_loop_error)
    then show ?thesis
      using assms Some Inl
      by (auto simp: WhenAndWhatTransformer_transform_def WhenAndWhatConverter_convert_def)
  next
    case (Inr parsed)
    then show ?thesis
      using assms Some
      by (cases parsed)
         (auto simp: WhenAndWhatTransformer_transform_def WhenAndWhatConverter_convert_def Let_def)
  qed
qed

text \<open>
  An instance of C9: the converter yields the pair, the transformer the instant alone.
\<close>

theorem transform_is_convert_without_label_witness:
  "WhenAndWhatConverter_convert (example_ctx [example_duration 7200 9 19])
     (ustr ''me to buy milk in 2 hours'') = Inr (1700007205000000, ustr ''buy milk'')
   \<and> WhenAndWhatTransformer_transform (example_interaction [example_duration 7200 9 19])
     (ustr ''me to buy milk in 2 hours'') = Inr 1700007205000000"
proof -
  let ?ctx = "example_ctx [example_duration 7200 9 19]"
  let ?i = "example_interaction [example_duration 7200 9 19]"
  have c: "WhenAndWhatConverter_convert ?ctx (ustr ''me to buy milk in 2 hours'')
             = Inr (1700007205000000, ustr ''buy milk'')"
    by (simp add: WhenAndWhatConverter_convert_def parse_eval example_eval split_eval str_eval)
  have "WhenAndWhatTransformer_transform ?i (ustr ''me to buy milk in 2 hours'') =
           (case WhenAndWhatConverter_convert ?ctx (ustr ''me to buy milk in 2 hours'') of
              Inr (when, what) \<Rightarrow> Inr when
            | Inl (BadArgument m) \<Rightarrow> Inl (BadDatetimeTransform m)
            | Inl e \<Rightarrow> Inl e)"
    by (rule transform_is_convert_without_label) (simp_all add: example_eval parse_eval)
  with c show ?thesis by simp
qed

section \<open>Properties of the paste-identifier converter\<close>

lemmas paste_eval = MystbinPasteConverter_convert_def matches_at_def url_prefix_def lit_def opt_def
  seq_def ext_group_def capitalised_def class_plus_def upper_def lower_def isword_char_def
  id_group.simps

lemma url_prefix_skip: "s \<in> set (url_prefix s)"
  by (simp add: url_prefix_def opt_def)

lemma id_group_skip: "s \<in> set (id_group s)"
  by (subst id_group.simps) simp

lemma ext_group_skip: "s \<in> set (ext_group rt s)"
  by (simp add: ext_group_def opt_def)

lemma concat_map_nonempty: "x \<in> set xs \<Longrightarrow> f x \<noteq> [] \<Longrightarrow> concat (map f xs) \<noteq> []"
  by (induction xs) auto

lemma matches_at_nonempty: "matches_at rt s \<noteq> []"
proof -
  have "map (\<lambda>r3. take (length r1 - length r2) r1) (ext_group rt r2) \<noteq> []" for r1 r2 :: pystr
    using ext_group_skip [where s = r2 and rt = rt] by auto
  then have "concat (map (\<lambda>r2. map (\<lambda>r3. take (length r1 - length r2) r1) (ext_group rt r2))
               (id_group r1)) \<noteq> []" for r1 :: pystr
    by (intro concat_map_nonempty [OF id_group_skip])
  then show ?thesis
    unfolding matches_at_def by (intro concat_map_nonempty [OF url_prefix_skip])
qed

lemma search_finds: "search rt s \<noteq> None"
  using matches_at_nonempty [of rt s] by (cases s) (auto split: list.splits)

text \<open>
  Every part of the pattern may match the empty string, so the pattern matches at the
  start of every text and the conversion never raises.
\<close>

lemma convert_never_fails: "MystbinPasteConverter_convert rt s \<noteq> Inl e"
  using search_finds [of rt s] by (auto simp: MystbinPasteConverter_convert_def split: option.splits)

text \<open>
  Claim C8 does not hold of the code: for "hello world", which holds no paste identifier,
  the conversion does not fail but returns the empty string, the text of the group \<open>id\<close>
  of the empty match at offset 0.
\<close>

theorem no_paste_id_returns_empty:
  "MystbinPasteConverter_convert rt (ustr ''hello world'') = Inr []"
  by (simp add: paste_eval startswith_def ustr_def)

section \<open>Properties of the paginator\<close>

lemma show_checked_page_out_of_range:
  "get_max_pages (source v) = Some m \<Longrightarrow> n < 0 \<or> m \<le> n \<Longrightarrow> show_checked_page v i n = (None, v, i)"
  by (auto simp: show_checked_page_def)

lemma update_labels_current [simp]: "current_page (update_labels v n) = current_page v"
  by (simp add: update_labels_def Let_def split: option.split)

lemma show_page_current:
  "get_page (source v) n = Inr p \<Longrightarrow> current_page (fst (snd (show_page v i n))) = n"
  by (simp add: show_page_def Let_def split: sum.split option.split)

lemma show_page_raises:
  "get_page (source v) n = Inl e \<Longrightarrow> show_page v i n = (Some e, v, i)"
  by (simp add: show_page_def)

lemma show_checked_page_current:
  "get_page (source v) n = Inr p \<Longrightarrow>
   (case get_max_pages (source v) of None \<Rightarrow> True | Some m \<Rightarrow> 0 \<le> n \<and> n < m) \<Longrightarrow>
   current_page (fst (snd (show_checked_page v i n))) = n"
  using show_page_current [of v n p i]
  by (auto simp: show_checked_page_def Let_def split: option.splits prod.splits)

lemma show_page_renders:
  assumes "get_page (source v) n = Inr p"
    and "get_kwargs_from_page (v\<lparr>current_page := n\<rparr>) p = Inr kwargs"
    and "kwargs \<noteq> []" and "\<not> is_done i"
  shows "show_page v i n =
           (None, update_labels (v\<lparr>current_page := n\<rparr>) n,
            i\<lparr>is_done := True, outbox := outbox i @ [EditMessage kwargs]\<rparr>)"
  using assms by (simp add: show_page_def Let_def)

lemma show_checked_page_renders:
  assumes "get_max_pages (source v) = Some m" and "0 \<le> n" and "n < m"
    and "get_page (source v) n = Inr p"
    and "get_kwargs_from_page (v\<lparr>current_page := n\<rparr>) p = Inr kwargs"
    and "kwargs \<noteq> []" and "\<not> is_done i"
  shows "show_checked_page v i n =
           (None, update_labels (v\<lparr>current_page := n\<rparr>) n,
            i\<lparr>is_done := True, outbox := outbox i @ [EditMessage kwargs]\<rparr>)"
  using assms(1-3) show_page_renders [OF assms(4-7)]
  by (simp add: show_checked_page_def)

lemma isdigit_three: "isdigit rt (ustr ''3'')"
  by (simp add: isdigit_def isdigit_char_def ustr_def)

lemma py_int_three: "py_int rt (ustr ''3'') = Inr 3"
  by (simp add: py_int_def decimal_char_def ustr_def)

lemma numbered_page_view:
  assumes "message v = Some edits" and "\<not> is_done i" and "isdigit rt val"
    and "py_int rt val = Inr n"
  shows "fst (snd (numbered_page rt v i (Submitted val mi) False))
           = fst (snd (show_checked_page v mi (n - 1)))"
proof -
  obtain r v' mi' where s: "show_checked_page v mi (n - 1) = (r, v', mi')"
    by (cases "show_checked_page v mi (n - 1)") auto
  show ?thesis
    using assms s
    by (cases r) (simp_all add: numbered_page_def respond_def Let_def)
qed

lemma numbered_page_not_digits:
  assumes "message v = Some edits" and "\<not> is_done i" and "\<not> is_done mi"
    and "\<not> isdigit rt val"
  shows "numbered_page rt v i (Submitted val mi) False =
           (None, v,
            i\<lparr>is_done := True,
              outbox := outbox i @ [SendModal (placeholder (NumberedPageModal (get_max_pages (source v))))]\<rparr>,
            Some (mi\<lparr>is_done := True,
                     outbox := outbox mi
                       @ [SendMessage (ustr ''Expected a number not '' @ repr rt val) True]\<rparr>))"
  using assms by (simp add: numbered_page_def respond_def Let_def)

lemma digits_chars: "c \<in> set (digits n) \<Longrightarrow> 48 \<le> c \<and> c \<le> 57"
proof (induction n rule: digits.induct)
  case (1 n)
  then show ?case
    by (subst (asm) (2) digits.simps) (auto split: if_splits)
qed

lemma py_str_no_E: "69 \<notin> set (py_str m)"
  using digits_chars [of 69] by (auto simp: py_str_def)

lemma replace_scan_absent: "c0 \<notin> set s \<Longrightarrow> replace_scan (c0 # old) new s = s"
  by (induction s) (auto simp: startswith_def)

lemma replace_placeholder:
  assumes "69 \<notin> set t"
  shows "py_replace (ustr ''Enter a number between 1 and '' @ t) (ustr ''Enter'') (ustr ''Expected'')
           = ustr ''Expected a number between 1 and '' @ t"
proof -
  have e: "ustr ''Enter'' = 69 # ustr ''nter''"
    by (simp add: ustr_def)
  have "69 \<notin> set (ustr '' a number between 1 and '' @ t)"
    using assms by (simp add: ustr_def)
  then have r: "replace_scan (ustr ''Enter'') (ustr ''Expected'') (ustr '' a number between 1 and '' @ t)
          = ustr '' a number between 1 and '' @ t"
    unfolding e by (rule replace_scan_absent)
  have "py_replace (ustr ''Enter a number between 1 and '' @ t) (ustr ''Enter'') (ustr ''Expected'')
          = ustr ''Expected'' @ replace_scan (ustr ''Enter'') (ustr ''Expected'')
              (ustr '' a number between 1 and '' @ t)"
    by (simp add: py_replace_def startswith_def ustr_def)
  then show ?thesis
    unfolding r by (simp add: ustr_def)
qed

lemmas view_eval = example_view_def ten_pages_def endless_pages_def fresh_def example_button_def

text \<open>
  Claim C5 as stated fails: with a source that reports no maximum and serves every index,
  going back from page 0 moves \<open>current_page\<close> to -1.
\<close>

theorem checked_navigation_at_bounds_counterexample:
  "get_max_pages (source (example_view endless_pages 0)) = None
   \<and> current_page (example_view endless_pages 0) = 0
   \<and> current_page (fst (snd (go_to_previous_page (example_view endless_pages 0) fresh))) = - 1"
proof -
  have "current_page (fst (snd (show_checked_page (example_view endless_pages 0) fresh (- 1)))) = - 1"
    by (rule show_checked_page_current [where p = "- 1"]) (simp_all add: view_eval)
  then show ?thesis
    by (simp add: go_to_previous_page_def) (simp add: view_eval)
qed

text \<open>
  Claim C5, as amended. For a source that reports a maximum, going back from page 0 and
  going on from page \<open>max_pages - 1\<close> change nothing (no exception, the same view, nothing
  sent). For a source that reports no maximum the request is not checked: going back from
  page 0 leaves \<open>current_page\<close> at 0 exactly when \<open>get_page(-1)\<close> raises, and when
  \<open>get_page(-1)\<close> returns a page, \<open>current_page\<close> becomes -1.
\<close>

theorem checked_navigation_at_bounds:
  "(get_max_pages (source v) = Some m \<longrightarrow>
      (current_page v = 0 \<longrightarrow> go_to_previous_page v i = (None, v, i))
    \<and> (current_page v = m - 1 \<longrightarrow> go_to_next_page v i = (None, v, i)))
   \<and>
   (get_max_pages (source v) = None \<longrightarrow> current_page v = 0 \<longrightarrow>
      (current_page (fst (snd (go_to_previous_page v i))) = 0
       \<longleftrightarrow> isl (get_page (source v) (- 1))))
   \<and>
   (get_max_pages (source v) = None \<longrightarrow> current_page v = 0 \<longrightarrow>
    get_page (source v) (- 1) = Inr p \<longrightarrow>
      current_page (fst (snd (go_to_previous_page v i))) = - 1)"
proof (intro conjI impI)
  assume "get_max_pages (source v) = Some m" "current_page v = 0"
  then show "go_to_previous_page v i = (None, v, i)"
    by (simp add: go_to_previous_page_def show_checked_page_out_of_range)
next
  assume "get_max_pages (source v) = Some m" "current_page v = m - 1"
  then show "go_to_next_page v i = (None, v, i)"
    by (simp add: go_to_next_page_def show_checked_page_out_of_range)
next
  assume none: "get_max_pages (source v) = None" and zero: "current_page v = 0"
  show "current_page (fst (snd (go_to_previous_page v i))) = 0
          \<longleftrightarrow> isl (get_page (source v) (- 1))"
  proof (cases "get_page (source v) (- 1)")
    case (Inl e)
    then show ?thesis
      using none zero
      by (simp add: go_to_previous_page_def show_checked_page_def show_page_raises)
  next
    case (Inr q)
    then show ?thesis
      using none zero show_checked_page_current [of v "- 1" q i]
      by (simp add: go_to_previous_page_def)
  qed
next
  assume "get_max_pages (source v) = None" "current_page v = 0"
    "get_page (source v) (- 1) = Inr p"
  then show "current_page (fst (snd (go_to_previous_page v i))) = - 1"
    using show_checked_page_current [of v "- 1" p i]
    by (simp add: go_to_previous_page_def)
qed

text \<open>
  Instances of the amended C5: ten pages at page 0 and at page 9, and the endless source,
  which ends at page -1.
\<close>

theorem checked_navigation_at_bounds_witness:
  "go_to_previous_page (example_view ten_pages 0) fresh = (None, example_view ten_pages 0, fresh)
   \<and> go_to_next_page (example_view ten_pages 9) fresh = (None, example_view ten_pages 9, fresh)
   \<and> current_page (fst (snd (go_to_previous_page (example_view endless_pages 0) fresh))) \<noteq> 0
   \<and> current_page (fst (snd (go_to_previous_page (example_view endless_pages 0) fresh))) = - 1"
proof -
  have m: "get_max_pages (source (example_view ten_pages k)) = Some 10" for k
    by (simp add: view_eval)
  have c: "current_page (example_view src k) = k" for src k
    by (simp add: view_eval)
  have n: "get_max_pages (source (example_view endless_pages 0)) = None"
    by (simp add: view_eval)
  have g: "get_page (source (example_view endless_pages 0)) (- 1) = Inr (- 1)"
    by (simp add: view_eval)
  note t0 = checked_navigation_at_bounds [of "example_view ten_pages 0" 10 fresh "- 1"]
  note t9 = checked_navigation_at_bounds [of "example_view ten_pages 9" 10 fresh "- 1"]
  note te = checked_navigation_at_bounds [of "example_view endless_pages 0" 10 fresh "- 1"]
  have "go_to_previous_page (example_view ten_pages 0) fresh = (None, example_view ten_pages 0, fresh)"
    using t0 [THEN conjunct1, rule_format, OF m, THEN conjunct1, rule_format, OF c] .
  moreover have "go_to_next_page (example_view ten_pages 9) fresh = (None, example_view ten_pages 9, fresh)"
    using t9 [THEN conjunct1, rule_format, OF m, THEN conjunct2, rule_format] c [of ten_pages 9]
    by simp
  moreover have "current_page (fst (snd (go_to_previous_page (example_view endless_pages 0) fresh))) \<noteq> 0"
    using te [THEN conjunct2, THEN conjunct1, rule_format, OF n c] g by simp
  moreover have "current_page (fst (snd (go_to_previous_page (example_view endless_pages 0) fresh))) = - 1"
    using te [THEN conjunct2, THEN conjunct2, rule_format, OF n c g] .
  ultimately show ?thesis by simp
qed

text \<open>
  Claim C6. With a message on display, a fresh button interaction and a modal submitted
  on a fresh interaction: for the input "3" with ten pages, when page 2 can be fetched and
  formats to keyword arguments that are not empty, the handler raises nothing, the view is
  the one with \<open>current_page\<close> 2 and the labels of page 2, and the page is shown by an edit of
  the message through the interaction of the modal (so no error text follows); an input
  that \<open>str.isdigit\<close> rejects leaves the view as it is and sends "Expected a number
  not ..." through the interaction of the modal.
\<close>

theorem jump_to_page_three_and_non_digits:
  "(message v = Some edits \<longrightarrow> \<not> is_done i \<longrightarrow> \<not> is_done mi \<longrightarrow>
    get_max_pages (source v) = Some 10 \<longrightarrow> get_page (source v) 2 = Inr p \<longrightarrow>
    get_kwargs_from_page (v\<lparr>current_page := 2\<rparr>) p = Inr kwargs \<longrightarrow> kwargs \<noteq> [] \<longrightarrow>
    numbered_page rt v i (Submitted (ustr ''3'') mi) False =
      (None, update_labels (v\<lparr>current_page := 2\<rparr>) 2,
       i\<lparr>is_done := True,
         outbox := outbox i @ [SendModal (ustr ''Enter a number between 1 and '' @ py_str 10)]\<rparr>,
       Some (mi\<lparr>is_done := True, outbox := outbox mi @ [EditMessage kwargs]\<rparr>))
    \<and> current_page (fst (snd (numbered_page rt v i (Submitted (ustr ''3'') mi) False))) = 2)
   \<and>
   (message v = Some edits \<longrightarrow> \<not> is_done i \<longrightarrow> \<not> is_done mi \<longrightarrow> \<not> isdigit rt val \<longrightarrow>
    numbered_page rt v i (Submitted val mi) False =
      (None, v,
       i\<lparr>is_done := True,
         outbox := outbox i @ [SendModal (placeholder (NumberedPageModal (get_max_pages (source v))))]\<rparr>,
       Some (mi\<lparr>is_done := True,
                outbox := outbox mi
                  @ [SendMessage (ustr ''Expected a number not '' @ repr rt val) True]\<rparr>)))"
proof (intro conjI impI)
  assume a: "message v = Some edits" "\<not> is_done i" "\<not> is_done mi"
    "get_max_pages (source v) = Some 10" "get_page (source v) 2 = Inr p"
    "get_kwargs_from_page (v\<lparr>current_page := 2\<rparr>) p = Inr kwargs" "kwargs \<noteq> []"
  have s: "show_checked_page v mi (3 - 1) =
             (None, update_labels (v\<lparr>current_page := 2\<rparr>) 2,
              mi\<lparr>is_done := True, outbox := outbox mi @ [EditMessage kwargs]\<rparr>)"
    using show_checked_page_renders [OF a(4) _ _ a(5) a(6) a(7) a(3)] by simp
  show r: "numbered_page rt v i (Submitted (ustr ''3'') mi) False =
      (None, update_labels (v\<lparr>current_page := 2\<rparr>) 2,
       i\<lparr>is_done := True,
         outbox := outbox i @ [SendModal (ustr ''Enter a number between 1 and '' @ py_str 10)]\<rparr>,
       Some (mi\<lparr>is_done := True, outbox := outbox mi @ [EditMessage kwargs]\<rparr>))"
    using a(1,2,4) isdigit_three [of rt] py_int_three [of rt] s
    by (simp add: numbered_page_def respond_def NumberedPageModal_def Let_def)
  show "current_page (fst (snd (numbered_page rt v i (Submitted (ustr ''3'') mi) False))) = 2"
    unfolding r by simp
next
  assume "message v = Some edits" "\<not> is_done i" "\<not> is_done mi" "\<not> isdigit rt val"
  then show "numbered_page rt v i (Submitted val mi) False =
      (None, v,
       i\<lparr>is_done := True,
         outbox := outbox i @ [SendModal (placeholder (NumberedPageModal (get_max_pages (source v))))]\<rparr>,
       Some (mi\<lparr>is_done := True,
                outbox := outbox mi
                  @ [SendMessage (ustr ''Expected a number not '' @ repr rt val) True]\<rparr>))"
    by (rule numbered_page_not_digits)
qed

text \<open>
  Instances of C6: the inputs "3" and "x" with ten pages.
\<close>

theorem jump_to_page_three_and_non_digits_witness:
  "numbered_page example_runtime (example_view ten_pages 0) fresh
      (Submitted (ustr ''3'') fresh) False
     = (None, update_labels ((example_view ten_pages 0)\<lparr>current_page := 2\<rparr>) 2,
        \<lparr>is_done = True, outbox = [SendModal (ustr ''Enter a number between 1 and 10'')]\<rparr>,
        Some \<lparr>is_done = True,
              outbox = [EditMessage [(''content'', Text (ustr ''2'')), (''embed'', NoneValue)]]\<rparr>)
   \<and> current_page (fst (snd (numbered_page example_runtime (example_view ten_pages 0) fresh
      (Submitted (ustr ''3'') fresh) False))) = 2
   \<and> numbered_page example_runtime (example_view ten_pages 0) fresh
        (Submitted (ustr ''x'') fresh) False
      = (None, example_view ten_pages 0,
         \<lparr>is_done = True, outbox = [SendModal (ustr ''Enter a number between 1 and 10'')]\<rparr>,
         Some \<lparr>is_done = True,
               outbox = [SendMessage (ustr ''Expected a number not '' @ [39, 120, 39]) True]\<rparr>)"
proof -
  let ?v = "example_view ten_pages 0"
  let ?kw = "[(''content'', Text (ustr ''2'')), (''embed'', NoneValue)] :: unit kwargs"
  have msg: "message ?v = Some []" by (simp add: view_eval)
  have i: "\<not> is_done fresh" by (simp add: fresh_def)
  have m: "get_max_pages (source ?v) = Some 10" by (simp add: view_eval)
  have g: "get_page (source ?v) 2 = Inr 2" by (simp add: view_eval)
  have two: "py_str 2 = ustr ''2''"
    by (simp add: py_str_def digits.simps ustr_def)
  have k: "get_kwargs_from_page (?v\<lparr>current_page := 2\<rparr>) 2 = Inr ?kw"
    by (simp add: get_kwargs_from_page_def view_eval two)
  have ne: "?kw \<noteq> []" by simp
  have d: "\<not> isdigit example_runtime (ustr ''x'')"
    by (simp add: isdigit_def isdigit_char_def ustr_def)
  have ten: "py_str 10 = ustr ''10''"
    by (simp add: py_str_def digits.simps ustr_def)
  note t = jump_to_page_three_and_non_digits
             [of ?v "[]" fresh fresh 2 ?kw example_runtime "ustr ''x''"]
  from t [THEN conjunct1, rule_format, OF msg i i m g k ne]
       t [THEN conjunct2, rule_format, OF msg i i d]
  show ?thesis
    by (simp add: m NumberedPageModal_def ten) (simp add: fresh_def example_runtime_def ustr_def)
qed

text \<open>
  Claim C10. With a message on display, a fresh button interaction and a submitted modal
  on a fresh interaction: when the input is all digits with value n, the source reports m
  pages and n - 1 is out of range (n - 1 \<ge> m or n = 0), the view is unchanged and
  "Expected a number between 1 and m" (the placeholder with "Enter" replaced) is sent
  through the interaction of the modal; the checked navigation of the buttons, asked for
  the same index, changes and sends nothing.
\<close>

theorem jump_out_of_range_reports_placeholder:
  assumes "message v = Some edits" and "\<not> is_done i" and "\<not> is_done mi"
    and "isdigit rt val" and "py_int rt val = Inr n"
    and "get_max_pages (source v) = Some m" and "n - 1 \<ge> m \<or> n = 0"
  shows "numbered_page rt v i (Submitted val mi) False =
           (None, v,
            i\<lparr>is_done := True,
              outbox := outbox i @ [SendModal (ustr ''Enter a number between 1 and '' @ py_str m)]\<rparr>,
            Some (mi\<lparr>is_done := True,
                     outbox := outbox mi
                       @ [SendMessage (ustr ''Expected a number between 1 and '' @ py_str m) True]\<rparr>))
         \<and> show_checked_page v i (n - 1) = (None, v, i)"
proof -
  have range: "n - 1 < 0 \<or> m \<le> n - 1"
    using assms(7) by auto
  have silent: "show_checked_page v j (n - 1) = (None, v, j)" for j
    using assms(6) range by (rule show_checked_page_out_of_range)
  have "placeholder (NumberedPageModal (get_max_pages (source v)))
          = ustr ''Enter a number between 1 and '' @ py_str m"
    using assms(6) by (simp add: NumberedPageModal_def Let_def)
  then show ?thesis
    using assms(1-5) silent py_str_no_E [of m]
    by (simp add: numbered_page_def respond_def Let_def replace_placeholder)
qed

text \<open>
  An instance of C10: the input "11" with ten pages.
\<close>

theorem jump_out_of_range_reports_placeholder_witness:
  "numbered_page example_runtime (example_view ten_pages 0) fresh
     (Submitted (ustr ''11'') fresh) False
   = (None, example_view ten_pages 0,
      \<lparr>is_done = True, outbox = [SendModal (ustr ''Enter a number between 1 and 10'')]\<rparr>,
      Some \<lparr>is_done = True,
            outbox = [SendMessage (ustr ''Expected a number between 1 and 10'') True]\<rparr>)
   \<and> show_checked_page (example_view ten_pages 0) fresh 10 = (None, example_view ten_pages 0, fresh)"
proof -
  let ?v = "example_view ten_pages 0"
  have msg: "message ?v = Some []" by (simp add: view_eval)
  have i: "\<not> is_done fresh" by (simp add: fresh_def)
  have m: "get_max_pages (source ?v) = Some 10" by (simp add: view_eval)
  have d: "isdigit example_runtime (ustr ''11'')"
    by (simp add: isdigit_def isdigit_char_def ustr_def)
  have n: "py_int example_runtime (ustr ''11'') = Inr 11"
    by (simp add: py_int_def decimal_char_def ustr_def)
  have r: "(11::int) - 1 \<ge> 10 \<or> (11::int) = 0" by simp
  have ten: "py_str 10 = ustr ''10''"
    by (simp add: py_str_def digits.simps ustr_def)
  from jump_out_of_range_reports_placeholder [OF msg i i d n m r]
  show ?thesis
    by (simp add: ten) (simp add: fresh_def ustr_def)
qed

end
